theory Spec2Isabelle
  imports Main "HOL-Library.Sublist"
begin

section \<open>Python values\<close>

text \<open>
  A Python \<open>str\<close> is a sequence of Unicode code points, so it is modelled as a list of
  code points (natural numbers) and not as a list of bytes. \<open>ustr\<close> reads an ASCII
  literal of the source as such a string.
\<close>

type_synonym pystr = "nat list"

type_synonym bytes = "nat list"

definition ustr :: "string \<Rightarrow> pystr" where
  "ustr s = map of_char s"

text \<open>
  \<open>str.strip()\<close> without argument removes the leading and the trailing characters
  for which \<open>str.isspace\<close> holds. The code points are those of CPython's Unicode
  whitespace table.
\<close>

definition isspace :: "nat \<Rightarrow> bool" where
  "isspace c \<longleftrightarrow>
     (9 \<le> c \<and> c \<le> 13) \<or> (28 \<le> c \<and> c \<le> 32) \<or> c = 133 \<or> c = 160 \<or> c = 5760 \<or>
     (8192 \<le> c \<and> c \<le> 8202) \<or> c = 8232 \<or> c = 8233 \<or> c = 8239 \<or> c = 8287 \<or> c = 12288"

definition strip :: "pystr \<Rightarrow> pystr" where
  "strip s = rev (dropWhile isspace (rev (dropWhile isspace s)))"

text \<open>
  An exception caught by \<open>except Exception as e\<close>; \<open>detail e\<close> is what \<open>{e}\<close> puts into
  an f-string, that is \<open>str(e)\<close>. Only the calls into the two external services (the
  Gemini SDK and the Telegram SDK) and the calls on the objects they return are taken
  to raise; string formatting, \<open>BytesIO()\<close>, \<open>seek\<close>, \<open>logging.error\<close> and the hand-over
  to the executor are taken to return normally.
\<close>

datatype exn = Exception (detail: pystr)

section \<open>The external services\<close>

text \<open>
  The response of \<open>TEXT_MODEL.generate_content\<close>: reading its \<open>text\<close> attribute (\<open>text_attr\<close>) gives
  the text or raises (a malformed or blocked response).
\<close>

datatype text_response = TextResponse (text_attr: "exn + pystr")

text \<open>
  An image object of the response: \<open>save_png\<close> is the outcome of
  \<open>img.save(bio, 'PNG')\<close>, the bytes written into the buffer or a raise.
  For the response of \<open>IMAGE_MODEL.generate_content\<close>, \<open>first_image\<close> is the outcome of
  evaluating \<open>img_response.parts[0].image\<close>: the image, or a raise when there is no such
  artifact.
\<close>

datatype pil_image = PILImage (save_png: "exn + bytes")

datatype image_response = ImageResponse (first_image: "exn + pil_image")

record gemini =
  TEXT_MODEL :: "pystr \<Rightarrow> exn + text_response"
  IMAGE_MODEL :: "pystr \<Rightarrow> exn + image_response"

text \<open>
  Everything a request does to the outside world, in the order in which it happens.
  A chat call is recorded with its outcome: the identifier of the message sent
  (\<open>Inr\<close>) or the exception raised (\<open>Inl\<close>); a recorded call is an attempt, whether or not
  it succeeded.
\<close>

datatype event =
    TextGenerate pystr
  | ImageGenerate pystr
  | LogError pystr
  | ReplyText pystr "exn + int"
  | ReplyPhoto bytes pystr "exn + int"
  | DeleteMessage int int "exn + bool"

text \<open>
  The chat platform, as seen from the handler. Each method gets the events of the
  request so far: the outcome of a call may depend on everything that happened before
  it, so the same method may succeed on one call and raise on the next.
\<close>

record telegram =
  reply_text :: "event list \<Rightarrow> pystr \<Rightarrow> exn + int"
  reply_photo :: "event list \<Rightarrow> bytes \<Rightarrow> pystr \<Rightarrow> exn + int"
  delete_message :: "event list \<Rightarrow> int \<Rightarrow> int \<Rightarrow> exn + bool"

section \<open>Gemini logic\<close>

definition SYSTEM_PROMPT :: pystr where
  "SYSTEM_PROMPT = ustr (concat
    [''\<newline>'',
     ''You are a Monster Data Generator.\<newline>'',
     ''Input: Name, Element, Rarity.\<newline>'',
     ''Rules:\<newline>'',
     ''- Common:    HP: 80-120  | ATK: 10-30   | DEF: 40-60    | SPD: 30-40\<newline>'',
     ''- Rare:      HP: 100-160 | ATK: 30-50   | DEF: 60-80    | SPD: 40-50\<newline>'',
     ''- Epic:      HP: 120-200 | ATK: 50-70   | DEF: 80-110   | SPD: 50-60\<newline>'',
     ''- Legendary: HP: 150-220 | ATK: 70-100  | DEF: 110-150  | SPD: 60-68\<newline>'',
     ''- Mythic:    HP: 200-250 | ATK: 100-130 | DEF: 150-180  | SPD: 68-75\<newline>'',
     ''- Sacred:    HP: 250-300 | ATK: 130-150 | DEF: 180-200  | SPD: 75-90\<newline>'',
     ''\<newline>'',
     ''Output Format (Strictly No Markdown/Brackets):\<newline>'',
     ''Name: {Name}\<newline>'',
     ''Element: {Element}\<newline>'',
     ''Rarity: {Rarity}\<newline>'',
     ''Stats: {HP} {ATK} {DEF} {SPD}\<newline>'',
     ''Move 1: {Move Name} | {Power} | {Accuracy}\<newline>'',
     ''Move 2: {Move Name} | {Power} | {Accuracy}\<newline>'',
     ''Move 3: {Move Name} | {Power} | {Accuracy}\<newline>''])"

text \<open>The two f-strings of \<open>generate\<close>: the text prompt and the image prompt.\<close>

definition prompt :: "pystr \<Rightarrow> pystr \<Rightarrow> pystr \<Rightarrow> pystr" where
  "prompt name element rarity =
     SYSTEM_PROMPT @ ustr ''\<newline>\<newline>USER INPUT -> Name: '' @ name @
     ustr '', Element: '' @ element @ ustr '', Rarity: '' @ rarity"

definition img_prompt :: "pystr \<Rightarrow> pystr \<Rightarrow> pystr" where
  "img_prompt name element =
     ustr ''Generate a image of '' @ element @ ustr '' '' @ name @
     ustr '' monster, Quality - 4k, Ratio - 1:1''"

text \<open>
  The first \<open>try\<close> block of \<open>generate\<close>: the stripped text of the response, or the error
  text when the call or the read of \<open>.text\<close> raises.
\<close>

definition stats_text :: "gemini \<Rightarrow> pystr \<Rightarrow> pystr \<Rightarrow> pystr \<Rightarrow> pystr" where
  "stats_text gem name element rarity =
     (case TEXT_MODEL gem (prompt name element rarity) of
        Inl e \<Rightarrow> ustr ''Error generating text: '' @ detail e
      | Inr txt_response \<Rightarrow>
          (case text_attr txt_response of
             Inl e \<Rightarrow> ustr ''Error generating text: '' @ detail e
           | Inr t \<Rightarrow> strip t))"

text \<open>
  The body of the second \<open>try\<close> block: the PNG bytes in the buffer, or the exception of
  the first statement that raises.
\<close>

definition img_try :: "gemini \<Rightarrow> pystr \<Rightarrow> pystr \<Rightarrow> exn + bytes" where
  "img_try gem name element =
     (case IMAGE_MODEL gem (img_prompt name element) of
        Inl e \<Rightarrow> Inl e
      | Inr img_response \<Rightarrow>
          (case first_image img_response of
             Inl e \<Rightarrow> Inl e
           | Inr img \<Rightarrow> save_png img))"

text \<open>
  \<open>generate\<close> returns the pair \<open>(stats_text, img_bytes)\<close>, here together with the events
  it caused: the two calls, and the error log line of the \<open>except\<close> branch of the
  second block, where \<open>img_bytes\<close> stays \<open>None\<close>.
\<close>

definition generate :: "gemini \<Rightarrow> pystr \<Rightarrow> pystr \<Rightarrow> pystr \<Rightarrow> (pystr \<times> bytes option) \<times> event list" where
  "generate gem name element rarity =
     (let calls = [TextGenerate (prompt name element rarity), ImageGenerate (img_prompt name element)]
      in case img_try gem name element of
           Inr bio \<Rightarrow> ((stats_text gem name element rarity, Some bio), calls)
         | Inl e \<Rightarrow> ((stats_text gem name element rarity, None),
                     calls @ [LogError (ustr ''Image Error: '' @ detail e)]))"

text \<open>\<open>get_gemini_response\<close> runs \<open>generate\<close> in the executor and returns its result.\<close>

definition get_gemini_response :: "gemini \<Rightarrow> pystr \<Rightarrow> pystr \<Rightarrow> pystr \<Rightarrow> (pystr \<times> bytes option) \<times> event list" where
  "get_gemini_response gem name element rarity = generate gem name element rarity"

section \<open>Telegram handlers\<close>

text \<open>The three message texts of \<open>generate_command\<close>; the first two begin with U+26A0 U+FE0F and U+26A1.\<close>

definition usage_warning :: pystr where
  "usage_warning = [9888, 65039] @ ustr '' Usage: `/generate [Name] [Element] [Rarity]`''"

definition summoning :: "pystr \<Rightarrow> pystr" where
  "summoning name = [9889] @ ustr '' Summoning '' @ name @ ustr ''...''"

definition critical_error :: "exn \<Rightarrow> pystr" where
  "critical_error e = ustr ''Critical Error: '' @ detail e"

text \<open>
  The last statement of \<open>generate_command\<close>, after the \<open>try\<close> statement: the deletion of
  the status message. It is not inside any \<open>try\<close>, so what it raises leaves the handler.
\<close>

definition delete_status :: "telegram \<Rightarrow> int \<Rightarrow> int \<Rightarrow> event list \<Rightarrow> (exn + unit) \<times> event list" where
  "delete_status tg chat_id message_id tr =
     (let r = delete_message tg tr chat_id message_id
      in ((case r of Inl e \<Rightarrow> Inl e | Inr _ \<Rightarrow> Inr ()), tr @ [DeleteMessage chat_id message_id r]))"

text \<open>
  Lines 87 and 88: the usage reply, after which the handler returns. The call is outside
  any \<open>try\<close>.
\<close>

definition usage_reply :: "telegram \<Rightarrow> (exn + unit) \<times> event list" where
  "usage_reply tg =
     (let r = reply_text tg [] usage_warning
      in ((case r of Inl e \<Rightarrow> Inl e | Inr _ \<Rightarrow> Inr ()), [ReplyText usage_warning r]))"

text \<open>
  The handler. \<open>args\<close> is \<open>context.args\<close> (\<open>None\<close> or a list), \<open>chat_id\<close> is
  \<open>update.effective_chat.id\<close>. The result is \<open>Inr ()\<close> when the handler returns and
  \<open>Inl e\<close> when \<open>e\<close> is raised to its caller, together with the events of the request.
  \<open>not context.args\<close> holds for \<open>None\<close> and for the empty list.
  \<open>if img_bytes:\<close> tests a \<open>BytesIO\<close> object or \<open>None\<close>; the object is true whatever it
  holds.
\<close>

definition generate_command :: "telegram \<Rightarrow> gemini \<Rightarrow> int \<Rightarrow> pystr list option \<Rightarrow> (exn + unit) \<times> event list" where
  "generate_command tg gem chat_id args =
     (case args of
        None \<Rightarrow> usage_reply tg
      | Some xs \<Rightarrow>
         if xs = [] \<or> length xs < 3 then usage_reply tg
         else
          (let name = xs ! 0; element = xs ! 1; rarity = xs ! 2;
               r1 = reply_text tg [] (summoning name);
               t1 = [ReplyText (summoning name) r1]
           in case r1 of
                Inl e \<Rightarrow> (Inl e, t1)
              | Inr status_msg \<Rightarrow>
                 (case get_gemini_response gem name element rarity of
                    ((stats, img_bytes), evs) \<Rightarrow>
                      (let t2 = t1 @ evs;
                           r2 = (case img_bytes of
                                   Some photo \<Rightarrow> reply_photo tg t2 photo stats
                                 | None \<Rightarrow> reply_text tg t2 stats);
                           t3 = t2 @ [case img_bytes of
                                        Some photo \<Rightarrow> ReplyPhoto photo stats r2
                                      | None \<Rightarrow> ReplyText stats r2]
                       in case r2 of
                            Inr _ \<Rightarrow> delete_status tg chat_id status_msg t3
                          | Inl e \<Rightarrow>
                             (let r3 = reply_text tg t3 (critical_error e);
                                  t4 = t3 @ [ReplyText (critical_error e) r3]
                              in case r3 of
                                   Inl e' \<Rightarrow> (Inl e', t4)
                                 | Inr _ \<Rightarrow> delete_status tg chat_id status_msg t4)))))"

section \<open>Main\<close>

text \<open>
  What the script does when it is run, given the process environment: the module-level
  statements and then the \<open>__main__\<close> block. \<open>not GEMINI_KEY\<close> holds for \<open>None\<close> and for the
  empty string. \<open>exit(1)\<close> ends the process with status 1; otherwise the process
  registers its handlers and polls.
\<close>

datatype action =
    Configure "pystr option"
  | GenerativeModel pystr
  | BasicConfig
  | Print pystr
  | BuildApp "pystr option"
  | AddHandler pystr
  | RunPolling

datatype process = Exited int | Serving

definition falsy :: "pystr option \<Rightarrow> bool" where
  "falsy v = (case v of None \<Rightarrow> True | Some s \<Rightarrow> s = [])"

definition main :: "(pystr \<Rightarrow> pystr option) \<Rightarrow> process \<times> action list" where
  "main getenv =
     (let GEMINI_KEY = getenv (ustr ''GEMINI_API_KEY'');
          TELEGRAM_TOKEN = getenv (ustr ''TELEGRAM_BOT_TOKEN'');
          startup = [Configure GEMINI_KEY, GenerativeModel (ustr ''gemini-1.5-flash''),
                     GenerativeModel (ustr ''imagen-3.0-generate-001''), BasicConfig]
      in if falsy GEMINI_KEY \<or> falsy TELEGRAM_TOKEN then
           (Exited 1, startup @
              [Print (ustr ''Error: Environment variables GEMINI_API_KEY or TELEGRAM_BOT_TOKEN are missing.'')])
         else
           (Serving, startup @
              [BuildApp TELEGRAM_TOKEN, AddHandler (ustr ''start''), AddHandler (ustr ''generate''),
               Print (ustr ''Bot is running...''), RunPolling]))"

section \<open>Reading the events of a request\<close>

text \<open>The calls that send a message to the chat, and those among them that were accepted.\<close>

fun is_send :: "event \<Rightarrow> bool" where
  "is_send (ReplyText t r) = True"
| "is_send (ReplyPhoto p t r) = True"
| "is_send ev = False"

definition sends :: "event list \<Rightarrow> event list" where
  "sends tr = filter is_send tr"

fun delivered :: "event \<Rightarrow> bool" where
  "delivered (ReplyText t (Inr m)) = True"
| "delivered (ReplyPhoto p t (Inr m)) = True"
| "delivered ev = False"

text \<open>The deletions attempted: chat and message of every \<open>delete_message\<close> call.\<close>

fun deletion :: "event \<Rightarrow> (int \<times> int) option" where
  "deletion (DeleteMessage c m r) = Some (c, m)"
| "deletion ev = None"

definition deletion_attempts :: "event list \<Rightarrow> (int \<times> int) list" where
  "deletion_attempts tr = List.map_filter deletion tr"

text \<open>The calls to the two generator clients.\<close>

fun is_generator_call :: "event \<Rightarrow> bool" where
  "is_generator_call (TextGenerate p) = True"
| "is_generator_call (ImageGenerate p) = True"
| "is_generator_call ev = False"

definition generator_calls :: "event list \<Rightarrow> event list" where
  "generator_calls tr = filter is_generator_call tr"

section \<open>The rule table of the prompt\<close>

text \<open>
  Lines 35 to 40 of the source, the rules of \<open>SYSTEM_PROMPT\<close>, and the table they print:
  a tier with its four ranges. \<open>tier_line\<close> prints one row in the columns of the
  source.
\<close>

definition RULE_TABLE :: pystr where
  "RULE_TABLE = ustr (concat
    [''- Common:    HP: 80-120  | ATK: 10-30   | DEF: 40-60    | SPD: 30-40\<newline>'',
     ''- Rare:      HP: 100-160 | ATK: 30-50   | DEF: 60-80    | SPD: 40-50\<newline>'',
     ''- Epic:      HP: 120-200 | ATK: 50-70   | DEF: 80-110   | SPD: 50-60\<newline>'',
     ''- Legendary: HP: 150-220 | ATK: 70-100  | DEF: 110-150  | SPD: 60-68\<newline>'',
     ''- Mythic:    HP: 200-250 | ATK: 100-130 | DEF: 150-180  | SPD: 68-75\<newline>'',
     ''- Sacred:    HP: 250-300 | ATK: 130-150 | DEF: 180-200  | SPD: 75-90\<newline>''])"

record tier =
  rarity_name :: string
  HP :: "nat \<times> nat"
  ATK :: "nat \<times> nat"
  DEF :: "nat \<times> nat"
  SPD :: "nat \<times> nat"

definition rarity_tiers :: "tier list" where
  "rarity_tiers =
    [\<lparr>rarity_name = ''Common'', HP = (80, 120), ATK = (10, 30), DEF = (40, 60), SPD = (30, 40)\<rparr>,
     \<lparr>rarity_name = ''Rare'', HP = (100, 160), ATK = (30, 50), DEF = (60, 80), SPD = (40, 50)\<rparr>,
     \<lparr>rarity_name = ''Epic'', HP = (120, 200), ATK = (50, 70), DEF = (80, 110), SPD = (50, 60)\<rparr>,
     \<lparr>rarity_name = ''Legendary'', HP = (150, 220), ATK = (70, 100), DEF = (110, 150), SPD = (60, 68)\<rparr>,
     \<lparr>rarity_name = ''Mythic'', HP = (200, 250), ATK = (100, 130), DEF = (150, 180), SPD = (68, 75)\<rparr>,
     \<lparr>rarity_name = ''Sacred'', HP = (250, 300), ATK = (130, 150), DEF = (180, 200), SPD = (75, 90)\<rparr>]"

fun decimal :: "nat \<Rightarrow> string" where
  "decimal n = (if n < 10 then [char_of (48 + n)] else decimal (n div 10) @ [char_of (48 + n mod 10)])"

definition range_text :: "nat \<times> nat \<Rightarrow> string" where
  "range_text r = decimal (fst r) @ ''-'' @ decimal (snd r)"

definition ljust :: "nat \<Rightarrow> string \<Rightarrow> string" where
  "ljust w s = s @ replicate (w - length s) (CHR '' '')"

definition tier_line :: "tier \<Rightarrow> string" where
  "tier_line t =
     ''- '' @ ljust 11 (rarity_name t @ '':'') @
     ljust 12 (''HP: '' @ range_text (HP t)) @ ''| '' @
     ljust 13 (''ATK: '' @ range_text (ATK t)) @ ''| '' @
     ljust 14 (''DEF: '' @ range_text (DEF t)) @ ''| '' @
     ''SPD: '' @ range_text (SPD t) @ ''\<newline>''"

section \<open>Example requests\<close>

definition example_xs :: "pystr list" where
  "example_xs = [ustr ''Pyro'', ustr ''Fire'', ustr ''Epic'']"

definition png_bytes :: bytes where
  "png_bytes = [137, 80, 78, 71]"

text \<open>Both services answer; the text comes with surrounding whitespace.\<close>

definition gem_ok :: gemini where
  "gem_ok = \<lparr>TEXT_MODEL = (\<lambda>p. Inr (TextResponse (Inr (ustr ''  Name: Pyro \<newline>'')))),
            IMAGE_MODEL = (\<lambda>p. Inr (ImageResponse (Inr (PILImage (Inr png_bytes)))))\<rparr>"

text \<open>The text call raises \<open>timeout\<close>; the image call answers.\<close>

definition gem_text_timeout :: gemini where
  "gem_text_timeout = \<lparr>TEXT_MODEL = (\<lambda>p. Inl (Exception (ustr ''timeout''))),
                      IMAGE_MODEL = (\<lambda>p. Inr (ImageResponse (Inr (PILImage (Inr png_bytes)))))\<rparr>"

text \<open>The text call answers; the image response holds no image.\<close>

definition gem_no_image :: gemini where
  "gem_no_image = \<lparr>TEXT_MODEL = (\<lambda>p. Inr (TextResponse (Inr (ustr ''Name: Pyro'')))),
                  IMAGE_MODEL = (\<lambda>p. Inr (ImageResponse (Inl (Exception (ustr ''list index out of range'')))))\<rparr>"

text \<open>The text call answers with blanks only; the image call raises.\<close>

definition gem_blank_text :: gemini where
  "gem_blank_text = \<lparr>TEXT_MODEL = (\<lambda>p. Inr (TextResponse (Inr (ustr ''  '')))),
                    IMAGE_MODEL = (\<lambda>p. Inl (Exception (ustr ''quota exceeded'')))\<rparr>"

text \<open>A chat that accepts every call; a message gets the number of events before it as identifier.\<close>

definition tg_ok :: telegram where
  "tg_ok = \<lparr>reply_text = (\<lambda>h t. Inr (int (length h))),
           reply_photo = (\<lambda>h p t. Inr (int (length h))),
           delete_message = (\<lambda>h c m. Inr True)\<rparr>"

text \<open>A chat where the status message is gone when the handler wants to delete it.\<close>

definition tg_delete_fails :: telegram where
  "tg_delete_fails = \<lparr>reply_text = (\<lambda>h t. Inr (int (length h))),
           reply_photo = (\<lambda>h p t. Inr (int (length h))),
           delete_message = (\<lambda>h c m. Inl (Exception (ustr ''Message to delete not found'')))\<rparr>"

text \<open>A chat that refuses the photo and accepts every text.\<close>

definition tg_photo_refused :: telegram where
  "tg_photo_refused = \<lparr>reply_text = (\<lambda>h t. Inr (int (length h))),
           reply_photo = (\<lambda>h p t. Inl (Exception (ustr ''Image_process_failed''))),
           delete_message = (\<lambda>h c m. Inr True)\<rparr>"

text \<open>A chat that refuses an empty text.\<close>

definition tg_no_empty_text :: telegram where
  "tg_no_empty_text = \<lparr>reply_text = (\<lambda>h t. if t = [] then Inl (Exception (ustr ''Message text is empty'')) else Inr (int (length h))),
           reply_photo = (\<lambda>h p t. Inr (int (length h))),
           delete_message = (\<lambda>h c m. Inr True)\<rparr>"

text \<open>A chat that accepts the first call of a request and is unreachable afterwards.\<close>

definition tg_lost :: telegram where
  "tg_lost = \<lparr>reply_text = (\<lambda>h t. if h = [] then Inr 0 else Inl (Exception (ustr ''Timed out''))),
           reply_photo = (\<lambda>h p t. Inl (Exception (ustr ''Timed out''))),
           delete_message = (\<lambda>h c m. Inl (Exception (ustr ''Timed out'')))\<rparr>"

text \<open>Process environments: both secrets set, and the AI-service key missing.\<close>

definition env_full :: "pystr \<Rightarrow> pystr option" where
  "env_full = [ustr ''GEMINI_API_KEY'' \<mapsto> ustr ''k'', ustr ''TELEGRAM_BOT_TOKEN'' \<mapsto> ustr ''t'']"

definition env_no_key :: "pystr \<Rightarrow> pystr option" where
  "env_no_key = [ustr ''TELEGRAM_BOT_TOKEN'' \<mapsto> ustr ''t'']"

section \<open>Stripping\<close>

lemma ustr_append: "ustr (a @ b) = ustr a @ ustr b" by (simp add: ustr_def)

lemma rev_split_dropWhile:
  "xs = rev (dropWhile P (rev xs)) @ rev (takeWhile P (rev xs))"
proof -
  have "rev (takeWhile P (rev xs) @ dropWhile P (rev xs)) = xs"
    by (simp only: takeWhile_dropWhile_id rev_rev_ident)
  then show ?thesis by (simp only: rev_append)
qed

lemma strip_decomp:
  "\<exists>a b. t = a @ strip t @ b \<and> list_all isspace a \<and> list_all isspace b"
proof -
  define d where "d = dropWhile isspace t"
  have 1: "t = takeWhile isspace t @ d" by (simp add: d_def)
  have 2: "d = strip t @ rev (takeWhile isspace (rev d))"
    unfolding strip_def d_def by (rule rev_split_dropWhile)
  have 3: "list_all isspace (takeWhile isspace t)"
    by (simp add: list_all_iff) (meson set_takeWhileD)
  have 4: "list_all isspace (rev (takeWhile isspace (rev d)))"
    by (simp add: list_all_iff) (meson set_takeWhileD)
  from 1 2 have "t = takeWhile isspace t @ strip t @ rev (takeWhile isspace (rev d))" by simp
  with 3 4 show ?thesis by blast
qed

lemma strip_no_trailing: "dropWhile isspace (rev (strip t)) = rev (strip t)"
  by (simp add: strip_def)

lemma strip_no_leading: "dropWhile isspace (strip t) = strip t"
proof (cases "strip t")
  case Nil then show ?thesis by simp
next
  case (Cons c cs)
  define d where "d = dropWhile isspace t"
  have 2: "d = strip t @ rev (takeWhile isspace (rev d))"
    unfolding strip_def d_def by (rule rev_split_dropWhile)
  then have "d \<noteq> []" using Cons by auto
  then have "\<not> isspace (hd d)" unfolding d_def by (metis hd_dropWhile)
  moreover have "hd d = c" using 2 Cons by (metis hd_append2 list.sel(1) list.distinct(1))
  ultimately show ?thesis using Cons by simp
qed

section \<open>The Stats Generator Client\<close>

lemma get_gemini_response_stats:
  "fst (fst (get_gemini_response gem name element rarity)) = stats_text gem name element rarity"
  by (simp add: get_gemini_response_def generate_def Let_def split: sum.splits)

text \<open>
  Claim C3. The first component of what \<open>get_gemini_response\<close> returns, the stats text,
  is: when the text call answers with text \<open>t\<close>, \<open>t\<close> stripped, that is \<open>t\<close> without a
  leading and a trailing run of whitespace, with no whitespace left at either end;
  when the call (or the read of the response's text) raises an exception with detail
  \<open>d\<close>, the string \<open>Error generating text: \<close> followed by \<open>d\<close>, so for \<open>timeout\<close> exactly
  \<open>Error generating text: timeout\<close>. In both cases the client returns a value: the fault
  does not reach its caller.
\<close>

theorem C3_stats_text_or_error_text:
  "(TEXT_MODEL gem (prompt name element rarity) = Inr resp \<and> text_attr resp = Inr t \<longrightarrow>
      fst (fst (get_gemini_response gem name element rarity)) = strip t \<and>
      (\<exists>a b. t = a @ strip t @ b \<and> list_all isspace a \<and> list_all isspace b) \<and>
      dropWhile isspace (strip t) = strip t \<and> dropWhile isspace (rev (strip t)) = rev (strip t)) \<and>
   (TEXT_MODEL gem (prompt name element rarity) = Inl (Exception d) \<or>
    TEXT_MODEL gem (prompt name element rarity) = Inr resp \<and> text_attr resp = Inl (Exception d) \<longrightarrow>
      fst (fst (get_gemini_response gem name element rarity)) = ustr ''Error generating text: '' @ d) \<and>
   (TEXT_MODEL gem (prompt name element rarity) = Inl (Exception (ustr ''timeout'')) \<longrightarrow>
      fst (fst (get_gemini_response gem name element rarity)) = ustr ''Error generating text: timeout'')"
  using strip_decomp [of t] strip_no_leading [of t] strip_no_trailing [of t]
  by (auto simp add: get_gemini_response_stats stats_text_def ustr_def)

theorem C3_stats_text_or_error_text_witness:
  "fst (fst (get_gemini_response gem_ok (ustr ''Pyro'') (ustr ''Fire'') (ustr ''Epic''))) = ustr ''Name: Pyro'' \<and>
   fst (fst (get_gemini_response gem_text_timeout (ustr ''Pyro'') (ustr ''Fire'') (ustr ''Epic''))) =
     ustr ''Error generating text: timeout''"
proof -
  have ok: "TEXT_MODEL gem_ok (prompt (ustr ''Pyro'') (ustr ''Fire'') (ustr ''Epic'')) =
              Inr (TextResponse (Inr (ustr ''  Name: Pyro \<newline>''))) \<and>
            text_attr (TextResponse (Inr (ustr ''  Name: Pyro \<newline>''))) = Inr (ustr ''  Name: Pyro \<newline>'')"
    by (simp add: gem_ok_def)
  have st: "strip (ustr ''  Name: Pyro \<newline>'') = ustr ''Name: Pyro''"
    by (simp add: strip_def ustr_def isspace_def)
  have fails: "TEXT_MODEL gem_text_timeout (prompt (ustr ''Pyro'') (ustr ''Fire'') (ustr ''Epic'')) =
              Inl (Exception (ustr ''timeout''))"
    by (simp add: gem_text_timeout_def)
  show ?thesis
    using ok st fails
      C3_stats_text_or_error_text [of gem_ok "ustr ''Pyro''" "ustr ''Fire''" "ustr ''Epic''"
        "TextResponse (Inr (ustr ''  Name: Pyro \<newline>''))" "ustr ''  Name: Pyro \<newline>''" "[]"]
      C3_stats_text_or_error_text [of gem_text_timeout "ustr ''Pyro''" "ustr ''Fire''" "ustr ''Epic''"
        "TextResponse (Inr [])" "[]" "ustr ''timeout''"]
    by (simp add: ustr_def)
qed

section \<open>The Prompt Formatter\<close>

lemma SYSTEM_PROMPT_split:
  "SYSTEM_PROMPT =
     ustr ''\<newline>You are a Monster Data Generator.\<newline>Input: Name, Element, Rarity.\<newline>Rules:\<newline>'' @
     RULE_TABLE @
     ustr (concat
      [''\<newline>'',
       ''Output Format (Strictly No Markdown/Brackets):\<newline>'',
       ''Name: {Name}\<newline>'',
       ''Element: {Element}\<newline>'',
       ''Rarity: {Rarity}\<newline>'',
       ''Stats: {HP} {ATK} {DEF} {SPD}\<newline>'',
       ''Move 1: {Move Name} | {Power} | {Accuracy}\<newline>'',
       ''Move 2: {Move Name} | {Power} | {Accuracy}\<newline>'',
       ''Move 3: {Move Name} | {Power} | {Accuracy}\<newline>''])"
  unfolding SYSTEM_PROMPT_def RULE_TABLE_def ustr_append [symmetric]
  by (rule arg_cong [where f = ustr]) simp

lemma RULE_TABLE_tiers: "RULE_TABLE = ustr (concat (map tier_line rarity_tiers))"
  unfolding RULE_TABLE_def
  by (rule arg_cong [where f = ustr]) code_simp

lemma sublist_RULE_TABLE: "sublist RULE_TABLE SYSTEM_PROMPT"
  unfolding sublist_def using SYSTEM_PROMPT_split by blast

text \<open>
  Claim C7. For all name, element and rarity the prompt is the value of a total function
  of the three strings (nothing else enters it, and there is no input on which it
  fails). It contains each of the three strings as they are, it begins with
  \<open>SYSTEM_PROMPT\<close>, and so it contains the rule table of the source unchanged whatever
  the inputs are. The rule table is the print of six rarity tiers, each with a range
  for HP, ATK, DEF and SPD.
\<close>

theorem C7_prompt_contains_inputs_and_rules:
  "sublist name (prompt name element rarity) \<and>
   sublist element (prompt name element rarity) \<and>
   sublist rarity (prompt name element rarity) \<and>
   prefix SYSTEM_PROMPT (prompt name element rarity) \<and>
   sublist RULE_TABLE (prompt name element rarity) \<and>
   RULE_TABLE = ustr (concat (map tier_line rarity_tiers)) \<and>
   length rarity_tiers = 6"
proof -
  have 1: "sublist name (prompt name element rarity)"
    unfolding prompt_def sublist_def by (metis append.assoc)
  have 2: "sublist element (prompt name element rarity)"
    unfolding prompt_def sublist_def by (metis append.assoc)
  have 3: "sublist rarity (prompt name element rarity)"
    unfolding prompt_def by (metis append.assoc sublist_appendI append_Nil2)
  have 4: "prefix SYSTEM_PROMPT (prompt name element rarity)"
    unfolding prompt_def by simp
  have 5: "sublist RULE_TABLE (prompt name element rarity)"
    using sublist_RULE_TABLE 4 by (meson prefix_imp_sublist sublist_order.order_trans)
  have 6: "length rarity_tiers = 6" by (simp add: rarity_tiers_def)
  from 1 2 3 4 5 6 RULE_TABLE_tiers show ?thesis by blast
qed

section \<open>The paths of the handler\<close>

lemma sends_generate: "sends (snd (generate gem name element rarity)) = []"
  by (simp add: generate_def sends_def Let_def split: sum.splits)

lemma deletions_generate: "deletion_attempts (snd (generate gem name element rarity)) = []"
  by (simp add: generate_def deletion_attempts_def Let_def split: sum.splits)

lemma not_delivered_generate: "\<not> list_ex delivered (snd (generate gem name element rarity))"
  by (simp add: generate_def Let_def split: sum.splits)

lemma deletion_attempts_append:
  "deletion_attempts (xs @ ys) = deletion_attempts xs @ deletion_attempts ys"
  by (simp add: deletion_attempts_def List.map_filter_def)

lemma deletion_attempts_simps:
  "deletion_attempts [] = []"
  "deletion_attempts (DeleteMessage c m r # tr) = (c, m) # deletion_attempts tr"
  "deletion_attempts (ReplyText t r1 # tr) = deletion_attempts tr"
  "deletion_attempts (ReplyPhoto p t r1 # tr) = deletion_attempts tr"
  by (simp_all add: deletion_attempts_def)

lemma usage_path:
  assumes "case args of None \<Rightarrow> True | Some xs \<Rightarrow> length xs < 3"
  shows "generate_command tg gem chat_id args = usage_reply tg"
  using assms by (auto simp add: generate_command_def split: option.splits)

lemma status_raises:
  assumes "reply_text tg [] (summoning name) = Inl e"
  shows "generate_command tg gem chat_id (Some (name # element # rarity # extra)) =
           (Inl e, [ReplyText (summoning name) (Inl e)])"
  using assms by (simp add: generate_command_def Let_def)

lemma reply_returns:
  assumes "reply_text tg [] (summoning name) = Inr m"
    and "generate gem name element rarity = ((stats, img), evs)"
    and "t2 = ReplyText (summoning name) (Inr m) # evs"
    and "(case img of Some photo \<Rightarrow> reply_photo tg t2 photo stats | None \<Rightarrow> reply_text tg t2 stats) = Inr m'"
  shows "generate_command tg gem chat_id (Some (name # element # rarity # extra)) =
           delete_status tg chat_id m
             (t2 @ [case img of Some photo \<Rightarrow> ReplyPhoto photo stats (Inr m') | None \<Rightarrow> ReplyText stats (Inr m')])"
  using assms by (cases img) (simp_all add: generate_command_def get_gemini_response_def Let_def)

lemma reply_raises:
  assumes "reply_text tg [] (summoning name) = Inr m"
    and "generate gem name element rarity = ((stats, img), evs)"
    and "t2 = ReplyText (summoning name) (Inr m) # evs"
    and "(case img of Some photo \<Rightarrow> reply_photo tg t2 photo stats | None \<Rightarrow> reply_text tg t2 stats) = Inl e"
    and "t3 = t2 @ [case img of Some photo \<Rightarrow> ReplyPhoto photo stats (Inl e) | None \<Rightarrow> ReplyText stats (Inl e)]"
  shows "generate_command tg gem chat_id (Some (name # element # rarity # extra)) =
           (case reply_text tg t3 (critical_error e) of
              Inl e' \<Rightarrow> (Inl e', t3 @ [ReplyText (critical_error e) (Inl e')])
            | Inr m'' \<Rightarrow> delete_status tg chat_id m (t3 @ [ReplyText (critical_error e) (Inr m'')]))"
  using assms
  by (cases img) (simp_all add: generate_command_def get_gemini_response_def Let_def split: sum.splits)

lemma three_args: "\<not> length xs < 3 \<Longrightarrow> \<exists>a b c rest. xs = a # b # c # rest"
  by (auto simp add: not_less numeral_3_eq_3 Suc_le_length_iff)

lemma no_deletion_in:
  "deletion_attempts tr = [] \<Longrightarrow> DeleteMessage c m r \<notin> set tr"
  by (induction tr) (auto simp add: deletion_attempts_def split: option.splits)

lemma deletion_attempts_reply_event:
  "deletion_attempts [case img of Some photo \<Rightarrow> ReplyPhoto photo stats r | None \<Rightarrow> ReplyText stats r] = []"
  by (cases img) (simp_all add: deletion_attempts_simps)

lemma delete_status_props:
  assumes "deletion_attempts tr = []"
  shows "deletion_attempts (snd (delete_status tg chat_id mid tr)) = [(chat_id, mid)]"
    and "DeleteMessage c m (Inl e) \<in> set (snd (delete_status tg chat_id mid tr)) \<Longrightarrow>
           c = chat_id \<and> m = mid \<and>
           fst (delete_status tg chat_id mid tr) = Inl e \<and>
           last (snd (delete_status tg chat_id mid tr)) = DeleteMessage c m (Inl e)"
proof -
  show "deletion_attempts (snd (delete_status tg chat_id mid tr)) = [(chat_id, mid)]"
    using assms
    by (simp add: delete_status_def Let_def deletion_attempts_append deletion_attempts_simps)
  assume "DeleteMessage c m (Inl e) \<in> set (snd (delete_status tg chat_id mid tr))"
  with no_deletion_in [OF assms]
  have "c = chat_id \<and> m = mid \<and> delete_message tg tr chat_id mid = Inl e"
    by (auto simp add: delete_status_def Let_def)
  then show "c = chat_id \<and> m = mid \<and>
           fst (delete_status tg chat_id mid tr) = Inl e \<and>
           last (snd (delete_status tg chat_id mid tr)) = DeleteMessage c m (Inl e)"
    by (simp add: delete_status_def Let_def)
qed

lemma generator_calls_generate:
  "generator_calls (snd (get_gemini_response gem name element rarity)) =
     [TextGenerate (prompt name element rarity), ImageGenerate (img_prompt name element)]"
  by (simp add: get_gemini_response_def generate_def generator_calls_def Let_def split: sum.splits)

lemma usage_is_not_status: "usage_warning \<noteq> summoning name"
  by (simp add: usage_warning_def summoning_def)

lemma list_ex_reply_event:
  "list_ex delivered [case img of Some photo \<Rightarrow> ReplyPhoto photo stats r | None \<Rightarrow> ReplyText stats r] =
     (case r of Inl e \<Rightarrow> False | Inr m \<Rightarrow> True)"
  by (cases img; cases r) simp_all

text \<open>Requests run to their end.\<close>

lemma generate_gem_ok:
  "generate gem_ok (ustr ''Pyro'') (ustr ''Fire'') (ustr ''Epic'') =
     ((ustr ''Name: Pyro'', Some png_bytes),
      [TextGenerate (prompt (ustr ''Pyro'') (ustr ''Fire'') (ustr ''Epic'')),
       ImageGenerate (img_prompt (ustr ''Pyro'') (ustr ''Fire''))])"
proof -
  have "strip (ustr ''  Name: Pyro \<newline>'') = ustr ''Name: Pyro''"
    by (simp add: strip_def ustr_def isspace_def)
  then show ?thesis
    by (simp add: generate_def gem_ok_def img_try_def stats_text_def Let_def)
qed

lemma run_delete_fails:
  "generate_command tg_delete_fails gem_ok 5 (Some example_xs) =
     (Inl (Exception (ustr ''Message to delete not found'')),
      [ReplyText (summoning (ustr ''Pyro'')) (Inr 0),
       TextGenerate (prompt (ustr ''Pyro'') (ustr ''Fire'') (ustr ''Epic'')),
       ImageGenerate (img_prompt (ustr ''Pyro'') (ustr ''Fire'')),
       ReplyPhoto png_bytes (ustr ''Name: Pyro'') (Inr 3),
       DeleteMessage 5 0 (Inl (Exception (ustr ''Message to delete not found'')))])"
  by (simp add: generate_command_def example_xs_def get_gemini_response_def generate_gem_ok
      tg_delete_fails_def delete_status_def Let_def)

lemma generate_gem_text_timeout:
  "generate gem_text_timeout (ustr ''Pyro'') (ustr ''Fire'') (ustr ''Epic'') =
     ((ustr ''Error generating text: timeout'', Some png_bytes),
      [TextGenerate (prompt (ustr ''Pyro'') (ustr ''Fire'') (ustr ''Epic'')),
       ImageGenerate (img_prompt (ustr ''Pyro'') (ustr ''Fire''))])"
  by (simp add: generate_def gem_text_timeout_def img_try_def stats_text_def Let_def
      ustr_append [symmetric])

lemma generate_gem_no_image:
  "generate gem_no_image (ustr ''Pyro'') (ustr ''Fire'') (ustr ''Epic'') =
     ((ustr ''Name: Pyro'', None),
      [TextGenerate (prompt (ustr ''Pyro'') (ustr ''Fire'') (ustr ''Epic'')),
       ImageGenerate (img_prompt (ustr ''Pyro'') (ustr ''Fire'')),
       LogError (ustr ''Image Error: list index out of range'')])"
proof -
  have "strip (ustr ''Name: Pyro'') = ustr ''Name: Pyro''"
    by (simp add: strip_def ustr_def isspace_def)
  then show ?thesis
    by (simp add: generate_def gem_no_image_def img_try_def stats_text_def Let_def
        ustr_append [symmetric])
qed

lemma generate_gem_blank_text:
  "generate gem_blank_text (ustr ''Pyro'') (ustr ''Fire'') (ustr ''Epic'') =
     (([], None),
      [TextGenerate (prompt (ustr ''Pyro'') (ustr ''Fire'') (ustr ''Epic'')),
       ImageGenerate (img_prompt (ustr ''Pyro'') (ustr ''Fire'')),
       LogError (ustr ''Image Error: quota exceeded'')])"
proof -
  have "strip (ustr ''  '') = []"
    by (simp add: strip_def ustr_def isspace_def)
  then show ?thesis
    by (simp add: generate_def gem_blank_text_def img_try_def stats_text_def Let_def
        ustr_append [symmetric])
qed

lemma run_ok:
  "generate_command tg_ok gem_ok 5 (Some example_xs) =
     (Inr (),
      [ReplyText (summoning (ustr ''Pyro'')) (Inr 0),
       TextGenerate (prompt (ustr ''Pyro'') (ustr ''Fire'') (ustr ''Epic'')),
       ImageGenerate (img_prompt (ustr ''Pyro'') (ustr ''Fire'')),
       ReplyPhoto png_bytes (ustr ''Name: Pyro'') (Inr 3),
       DeleteMessage 5 0 (Inr True)])"
  by (simp add: generate_command_def example_xs_def get_gemini_response_def generate_gem_ok
      tg_ok_def delete_status_def Let_def)

lemma run_lost:
  "generate_command tg_lost gem_ok 5 (Some example_xs) =
     (Inl (Exception (ustr ''Timed out'')),
      [ReplyText (summoning (ustr ''Pyro'')) (Inr 0),
       TextGenerate (prompt (ustr ''Pyro'') (ustr ''Fire'') (ustr ''Epic'')),
       ImageGenerate (img_prompt (ustr ''Pyro'') (ustr ''Fire'')),
       ReplyPhoto png_bytes (ustr ''Name: Pyro'') (Inl (Exception (ustr ''Timed out''))),
       ReplyText (ustr ''Critical Error: Timed out'') (Inl (Exception (ustr ''Timed out'')))])"
  by (simp add: generate_command_def example_xs_def get_gemini_response_def generate_gem_ok
      tg_lost_def delete_status_def critical_error_def Let_def ustr_append [symmetric])

lemma run_photo_refused:
  "generate_command tg_photo_refused gem_ok 5 (Some example_xs) =
     (Inr (),
      [ReplyText (summoning (ustr ''Pyro'')) (Inr 0),
       TextGenerate (prompt (ustr ''Pyro'') (ustr ''Fire'') (ustr ''Epic'')),
       ImageGenerate (img_prompt (ustr ''Pyro'') (ustr ''Fire'')),
       ReplyPhoto png_bytes (ustr ''Name: Pyro'') (Inl (Exception (ustr ''Image_process_failed''))),
       ReplyText (ustr ''Critical Error: Image_process_failed'') (Inr 4),
       DeleteMessage 5 0 (Inr True)])"
  by (simp add: generate_command_def example_xs_def get_gemini_response_def generate_gem_ok
      tg_photo_refused_def delete_status_def critical_error_def Let_def ustr_append [symmetric])

lemma run_timeout_photo_refused:
  "generate_command tg_photo_refused gem_text_timeout 5 (Some example_xs) =
     (Inr (),
      [ReplyText (summoning (ustr ''Pyro'')) (Inr 0),
       TextGenerate (prompt (ustr ''Pyro'') (ustr ''Fire'') (ustr ''Epic'')),
       ImageGenerate (img_prompt (ustr ''Pyro'') (ustr ''Fire'')),
       ReplyPhoto png_bytes (ustr ''Error generating text: timeout'')
         (Inl (Exception (ustr ''Image_process_failed''))),
       ReplyText (ustr ''Critical Error: Image_process_failed'') (Inr 4),
       DeleteMessage 5 0 (Inr True)])"
  by (simp add: generate_command_def example_xs_def get_gemini_response_def generate_gem_text_timeout
      tg_photo_refused_def delete_status_def critical_error_def Let_def ustr_append [symmetric])

lemma run_empty_text_refused:
  "generate_command tg_no_empty_text gem_blank_text 5 (Some example_xs) =
     (Inr (),
      [ReplyText (summoning (ustr ''Pyro'')) (Inr 0),
       TextGenerate (prompt (ustr ''Pyro'') (ustr ''Fire'') (ustr ''Epic'')),
       ImageGenerate (img_prompt (ustr ''Pyro'') (ustr ''Fire'')),
       LogError (ustr ''Image Error: quota exceeded''),
       ReplyText [] (Inl (Exception (ustr ''Message text is empty''))),
       ReplyText (ustr ''Critical Error: Message text is empty'') (Inr 5),
       DeleteMessage 5 0 (Inr True)])"
proof -
  have "summoning (ustr ''Pyro'') \<noteq> []" "critical_error e \<noteq> []" for e
    by (simp_all add: summoning_def critical_error_def ustr_def)
  then show ?thesis
    by (simp add: generate_command_def example_xs_def get_gemini_response_def generate_gem_blank_text
      tg_no_empty_text_def delete_status_def Let_def)
       (simp add: critical_error_def ustr_append [symmetric])
qed

lemma sends_simps:
  "sends [] = []"
  "sends (ReplyText t r # tr) = ReplyText t r # sends tr"
  "sends (ReplyPhoto p t r # tr) = ReplyPhoto p t r # sends tr"
  "sends (DeleteMessage c m r' # tr) = sends tr"
  "sends (xs @ ys) = sends xs @ sends ys"
  by (simp_all add: sends_def)

lemma img_try_fails:
  assumes "IMAGE_MODEL gem (img_prompt name element) = Inl e \<or>
           (\<exists>resp. IMAGE_MODEL gem (img_prompt name element) = Inr resp \<and>
              (first_image resp = Inl e \<or>
               (\<exists>img. first_image resp = Inr img \<and> save_png img = Inl e)))"
  shows "img_try gem name element = Inl e"
  using assms by (auto simp add: img_try_def)

lemma stats_text_without_image_model:
  "stats_text (gem\<lparr>IMAGE_MODEL := f\<rparr>) name element rarity = stats_text gem name element rarity"
  by (simp add: stats_text_def)

section \<open>The usage warning\<close>

text \<open>
  Claim C6. When \<open>/generate\<close> comes with fewer than three arguments (also with none, and
  with no argument list at all), the only message the handler sends is the usage
  warning, and it makes no call to the text generator or to the image generator,
  whereas a request with three arguments makes one call to each
  (\<open>generator_calls_generate\<close>).
\<close>

theorem C6_usage_without_generation:
  assumes "case args of None \<Rightarrow> True | Some xs \<Rightarrow> length xs < 3"
  shows "sends (snd (generate_command tg gem chat_id args)) =
           [ReplyText usage_warning (reply_text tg [] usage_warning)] \<and>
         generator_calls (snd (generate_command tg gem chat_id args)) = []"
  using assms
  by (auto simp add: generate_command_def usage_reply_def sends_def generator_calls_def Let_def
      split: option.splits)

theorem C6_usage_without_generation_witness:
  "sends (snd (generate_command tg_ok gem_ok 5 None)) = [ReplyText usage_warning (Inr 0)] \<and>
   generator_calls (snd (generate_command tg_ok gem_ok 5 None)) = [] \<and>
   sends (snd (generate_command tg_ok gem_ok 5 (Some []))) = [ReplyText usage_warning (Inr 0)] \<and>
   generator_calls (snd (generate_command tg_ok gem_ok 5 (Some []))) = [] \<and>
   sends (snd (generate_command tg_ok gem_ok 5 (Some [ustr ''Pyro'', ustr ''Fire'']))) =
     [ReplyText usage_warning (Inr 0)] \<and>
   generator_calls (snd (generate_command tg_ok gem_ok 5 (Some [ustr ''Pyro'', ustr ''Fire'']))) = []"
  using C6_usage_without_generation [of None tg_ok gem_ok 5]
    C6_usage_without_generation [of "Some []" tg_ok gem_ok 5]
    C6_usage_without_generation [of "Some [ustr ''Pyro'', ustr ''Fire'']" tg_ok gem_ok 5]
  by (simp add: tg_ok_def)

text \<open>
  Claim C10. On the usage-warning path the events of the request are the one call that
  sends the usage warning and nothing else: no deletion is attempted and no status
  message (\<open>summoning name\<close>, for any name) is sent.
\<close>

theorem C10_usage_only_effect:
  assumes "case args of None \<Rightarrow> True | Some xs \<Rightarrow> length xs < 3"
  shows "snd (generate_command tg gem chat_id args) =
           [ReplyText usage_warning (reply_text tg [] usage_warning)] \<and>
         deletion_attempts (snd (generate_command tg gem chat_id args)) = [] \<and>
         ReplyText (summoning name) r \<notin> set (snd (generate_command tg gem chat_id args))"
  using assms usage_is_not_status [of name]
  by (auto simp add: generate_command_def usage_reply_def deletion_attempts_def Let_def
      split: option.splits)

theorem C10_usage_only_effect_witness:
  "snd (generate_command tg_ok gem_ok 5 (Some [ustr ''Pyro''])) = [ReplyText usage_warning (Inr 0)] \<and>
   deletion_attempts (snd (generate_command tg_ok gem_ok 5 (Some [ustr ''Pyro'']))) = [] \<and>
   ReplyText (summoning (ustr ''Pyro'')) (Inr 0) \<notin> set (snd (generate_command tg_ok gem_ok 5 (Some [ustr ''Pyro''])))"
proof -
  have h: "case Some [ustr ''Pyro''] of None \<Rightarrow> True | Some xs \<Rightarrow> length xs < 3"
    by simp
  have r: "reply_text tg_ok [] usage_warning = Inr 0"
    by (simp add: tg_ok_def)
  from C10_usage_only_effect [OF h, of tg_ok gem_ok 5 "ustr ''Pyro''" "Inr 0"]
  show ?thesis unfolding r .
qed

section \<open>The status notification\<close>

text \<open>
  Claim C1, as the code has it. The deletion of the status notification is the last
  statement of the handler and stands outside the \<open>try\<close> statement. When it raises
  \<open>e\<close>, the handler does not catch it: \<open>e\<close> is raised to the handler's caller. The failed
  deletion is the last event of the request and the only deletion attempted: the reply
  was sent before it, and nothing is sent to the user about the failure.
\<close>

theorem C1_deletion_failure_reaches_caller:
  assumes del: "DeleteMessage c m (Inl e) \<in> set (snd (generate_command tg gem chat_id args))"
  shows "fst (generate_command tg gem chat_id args) = Inl e \<and>
         last (snd (generate_command tg gem chat_id args)) = DeleteMessage c m (Inl e) \<and>
         deletion_attempts (snd (generate_command tg gem chat_id args)) = [(c, m)]"
proof (cases "case args of None \<Rightarrow> True | Some xs \<Rightarrow> length xs < 3")
  case True
  from del show ?thesis
    unfolding usage_path [OF True] by (simp add: usage_reply_def Let_def)
next
  case False
  then obtain name element rarity extra where args: "args = Some (name # element # rarity # extra)"
    by (cases args) (auto dest: three_args)
  show ?thesis
  proof (cases "reply_text tg [] (summoning name)")
    case (Inl e1)
    from del show ?thesis
      unfolding args status_raises [OF Inl] by simp
  next
    case (Inr mid)
    obtain stats img evs where gen: "generate gem name element rarity = ((stats, img), evs)"
      by (metis prod.collapse)
    define t2 where "t2 = ReplyText (summoning name) (Inr mid) # evs"
    have evs: "deletion_attempts evs = []"
      using deletions_generate [of gem name element rarity] gen by simp
    have t2: "deletion_attempts t2 = []"
      by (simp add: t2_def deletion_attempts_simps evs)
    show ?thesis
    proof (cases "case img of Some photo \<Rightarrow> reply_photo tg t2 photo stats | None \<Rightarrow> reply_text tg t2 stats")
      case r2: (Inr m')
      define t3 where "t3 = t2 @ [case img of Some photo \<Rightarrow> ReplyPhoto photo stats (Inr m') | None \<Rightarrow> ReplyText stats (Inr m')]"
      have t3: "deletion_attempts t3 = []"
        by (simp add: t3_def deletion_attempts_append t2 deletion_attempts_reply_event)
      have eq: "generate_command tg gem chat_id args = delete_status tg chat_id mid t3"
        unfolding args t3_def by (rule reply_returns [OF Inr gen t2_def r2])
      from delete_status_props(1) [OF t3, of tg chat_id mid]
        delete_status_props(2) [OF t3, of c m e tg chat_id mid] del show ?thesis
        unfolding eq by simp
    next
      case r2: (Inl e2)
      define t3 where "t3 = t2 @ [case img of Some photo \<Rightarrow> ReplyPhoto photo stats (Inl e2) | None \<Rightarrow> ReplyText stats (Inl e2)]"
      have t3: "deletion_attempts t3 = []"
        by (simp add: t3_def deletion_attempts_append t2 deletion_attempts_reply_event)
      note eq = reply_raises [OF Inr gen t2_def r2 t3_def, of chat_id extra, folded args]
      show ?thesis
      proof (cases "reply_text tg t3 (critical_error e2)")
        case r3: (Inl e3)
        from del no_deletion_in [OF t3] show ?thesis
          unfolding eq r3 by simp
      next
        case r3: (Inr m'')
        define t4 where "t4 = t3 @ [ReplyText (critical_error e2) (Inr m'')]"
        have t4: "deletion_attempts t4 = []"
          by (simp add: t4_def deletion_attempts_append t3 deletion_attempts_simps)
        have eq4: "generate_command tg gem chat_id args = delete_status tg chat_id mid t4"
          unfolding eq r3 t4_def by simp
        from delete_status_props(1) [OF t4, of tg chat_id mid]
        delete_status_props(2) [OF t4, of c m e tg chat_id mid] del show ?thesis
          unfolding eq4 by simp
      qed
    qed
  qed
qed

theorem C1_deletion_failure_reaches_caller_witness:
  "last (snd (generate_command tg_delete_fails gem_ok 5 (Some example_xs))) =
     DeleteMessage 5 0 (Inl (Exception (ustr ''Message to delete not found''))) \<and>
   deletion_attempts (snd (generate_command tg_delete_fails gem_ok 5 (Some example_xs))) = [(5, 0)]"
proof -
  have h: "DeleteMessage 5 0 (Inl (Exception (ustr ''Message to delete not found'')))
             \<in> set (snd (generate_command tg_delete_fails gem_ok 5 (Some example_xs)))"
    by (simp add: run_delete_fails)
  from C1_deletion_failure_reaches_caller [OF h] show ?thesis by simp
qed

text \<open>
  Claim C1 as the specification states it fails: with a chat in which the status
  message is already gone, the deletion raises and the handler ends by raising that
  exception to its caller, not by returning.
\<close>

theorem C1_deletion_failure_counterexample:
  "fst (generate_command tg_delete_fails gem_ok 5 (Some example_xs)) =
     Inl (Exception (ustr ''Message to delete not found'')) \<and>
   fst (generate_command tg_delete_fails gem_ok 5 (Some example_xs)) \<noteq> Inr ()"
  by (simp add: run_delete_fails)

text \<open>
  Claim C2, as the code has it. A request with at least three arguments begins with the
  one call that sends the status message. When that call raises, the request ends
  there: there is no status notification and no deletion. When it returns the
  notification \<open>m\<close>, exactly one deletion is attempted, of \<open>m\<close> in the chat of the request,
  if a reply was delivered after it (the photo reply, the text-only reply or, after a
  reply that raised, the critical-error reply); no deletion is attempted if the
  critical-error reply raised as well.
\<close>

theorem C2_one_status_send_deleted_after_a_reply:
  "\<exists>rest. snd (generate_command tg gem chat_id (Some (name # element # rarity # extra))) =
            ReplyText (summoning name) (reply_text tg [] (summoning name)) # rest \<and>
          (case reply_text tg [] (summoning name) of
             Inl e \<Rightarrow> rest = []
           | Inr m \<Rightarrow> deletion_attempts rest = (if list_ex delivered rest then [(chat_id, m)] else []))"
proof (cases "reply_text tg [] (summoning name)")
  case (Inl e1)
  show ?thesis
    unfolding status_raises [OF Inl] Inl by simp
next
  case (Inr mid)
  obtain stats img evs where gen: "generate gem name element rarity = ((stats, img), evs)"
    by (metis prod.collapse)
  define t2 where "t2 = ReplyText (summoning name) (Inr mid) # evs"
  have evs: "deletion_attempts evs = []" "\<not> list_ex delivered evs"
    using deletions_generate [of gem name element rarity]
      not_delivered_generate [of gem name element rarity] gen by simp_all
  show ?thesis
  proof (cases "case img of Some photo \<Rightarrow> reply_photo tg t2 photo stats | None \<Rightarrow> reply_text tg t2 stats")
    case r2: (Inr m')
    show ?thesis
      unfolding reply_returns [OF Inr gen t2_def r2] Inr
      by (cases img) (simp_all add: t2_def delete_status_def Let_def deletion_attempts_append deletion_attempts_simps
          evs deletion_attempts_reply_event list_ex_reply_event)
  next
    case r2: (Inl e2)
    define t3 where "t3 = t2 @ [case img of Some photo \<Rightarrow> ReplyPhoto photo stats (Inl e2) | None \<Rightarrow> ReplyText stats (Inl e2)]"
    note eq = reply_raises [OF Inr gen t2_def r2 t3_def, of chat_id extra]
    show ?thesis
    proof (cases "reply_text tg t3 (critical_error e2)")
      case r3: (Inl e3)
      show ?thesis
        unfolding eq r3 Inr
        by (cases img) (simp_all add: t3_def t2_def deletion_attempts_append deletion_attempts_simps
            evs deletion_attempts_reply_event list_ex_reply_event)
    next
      case r3: (Inr m'')
      show ?thesis
        unfolding eq r3 Inr
        by (cases img) (simp_all add: t3_def t2_def delete_status_def Let_def deletion_attempts_append
            deletion_attempts_simps evs deletion_attempts_reply_event list_ex_reply_event)
    qed
  qed
qed

theorem C2_one_status_send_deleted_after_a_reply_witness:
  "deletion_attempts (tl (snd (generate_command tg_ok gem_ok 5 (Some example_xs)))) = [(5, 0)]"
proof -
  have r: "reply_text tg_ok [] (summoning (ustr ''Pyro'')) = Inr 0"
    by (simp add: tg_ok_def)
  from C2_one_status_send_deleted_after_a_reply
    [of tg_ok gem_ok 5 "ustr ''Pyro''" "ustr ''Fire''" "ustr ''Epic''" "[]"]
  obtain rest where
    "snd (generate_command tg_ok gem_ok 5 (Some example_xs)) = ReplyText (summoning (ustr ''Pyro'')) (Inr 0) # rest"
    and d: "deletion_attempts rest = (if list_ex delivered rest then [(5, 0)] else [])"
    unfolding r example_xs_def by auto
  then have rest: "rest = tl (snd (generate_command tg_ok gem_ok 5 (Some example_xs)))"
    by simp
  have "list_ex delivered (tl (snd (generate_command tg_ok gem_ok 5 (Some example_xs))))"
    by (simp add: run_ok)
  with d show ?thesis unfolding rest by simp
qed

text \<open>
  Claim C2 as the specification states it fails on the critical-error branch: with a
  chat that accepts the status message and is unreachable afterwards, the photo reply
  raises, the critical-error reply raises as well and leaves the handler, and the
  status notification that was created is never deleted: no deletion is attempted.
\<close>

theorem C2_no_deletion_counterexample:
  "3 \<le> length example_xs \<and>
   ReplyText (summoning (ustr ''Pyro'')) (Inr 0) \<in> set (snd (generate_command tg_lost gem_ok 5 (Some example_xs))) \<and>
   ReplyText (ustr ''Critical Error: Timed out'') (Inl (Exception (ustr ''Timed out'')))
     \<in> set (snd (generate_command tg_lost gem_ok 5 (Some example_xs))) \<and>
   deletion_attempts (snd (generate_command tg_lost gem_ok 5 (Some example_xs))) = []"
proof -
  have "3 \<le> length example_xs"
    by (simp add: example_xs_def)
  then show ?thesis
    by (simp add: run_lost deletion_attempts_def)
qed

section \<open>The reply\<close>

text \<open>
  Claim C5, as the code has it. When the status message was sent and both generator
  results are there, the handler makes one reply call whose shape follows the presence
  of the image: \<open>reply_photo\<close> with the image and the stats text as caption when there is
  an image, \<open>reply_text\<close> with the stats text when there is none. When that call returns,
  the messages of the request are the status message and this one reply.
\<close>

theorem C5_reply_shape_by_image_presence:
  assumes status: "reply_text tg [] (summoning name) = Inr m"
    and gen: "get_gemini_response gem name element rarity = ((stats, img), evs)"
    and t2: "t2 = ReplyText (summoning name) (Inr m) # evs"
    and reply: "(case img of Some photo \<Rightarrow> reply_photo tg t2 photo stats
                 | None \<Rightarrow> reply_text tg t2 stats) = Inr m'"
  shows "sends (snd (generate_command tg gem chat_id (Some (name # element # rarity # extra)))) =
           [ReplyText (summoning name) (Inr m),
            case img of Some photo \<Rightarrow> ReplyPhoto photo stats (Inr m') | None \<Rightarrow> ReplyText stats (Inr m')]"
proof -
  from gen have gen': "generate gem name element rarity = ((stats, img), evs)"
    by (simp add: get_gemini_response_def)
  have evs: "sends evs = []"
    using sends_generate [of gem name element rarity] gen' by simp
  show ?thesis
    unfolding reply_returns [OF status gen' t2 reply]
    by (cases img) (simp_all add: delete_status_def Let_def t2 sends_simps evs)
qed

theorem C5_reply_shape_by_image_presence_witness:
  "sends (snd (generate_command tg_ok gem_ok 5 (Some example_xs))) =
     [ReplyText (summoning (ustr ''Pyro'')) (Inr 0), ReplyPhoto png_bytes (ustr ''Name: Pyro'') (Inr 3)] \<and>
   sends (snd (generate_command tg_ok gem_no_image 5 (Some example_xs))) =
     [ReplyText (summoning (ustr ''Pyro'')) (Inr 0), ReplyText (ustr ''Name: Pyro'') (Inr 4)]"
proof -
  have s: "reply_text tg_ok [] (summoning (ustr ''Pyro'')) = Inr 0"
    by (simp add: tg_ok_def)
  have g1: "get_gemini_response gem_ok (ustr ''Pyro'') (ustr ''Fire'') (ustr ''Epic'') =
     ((ustr ''Name: Pyro'', Some png_bytes),
      [TextGenerate (prompt (ustr ''Pyro'') (ustr ''Fire'') (ustr ''Epic'')),
       ImageGenerate (img_prompt (ustr ''Pyro'') (ustr ''Fire''))])"
    by (simp add: get_gemini_response_def generate_gem_ok)
  have g2: "get_gemini_response gem_no_image (ustr ''Pyro'') (ustr ''Fire'') (ustr ''Epic'') =
     ((ustr ''Name: Pyro'', None),
      [TextGenerate (prompt (ustr ''Pyro'') (ustr ''Fire'') (ustr ''Epic'')),
       ImageGenerate (img_prompt (ustr ''Pyro'') (ustr ''Fire'')),
       LogError (ustr ''Image Error: list index out of range'')])"
    by (simp add: get_gemini_response_def generate_gem_no_image)
  have r1: "(case Some png_bytes of
               Some photo \<Rightarrow> reply_photo tg_ok
                 (ReplyText (summoning (ustr ''Pyro'')) (Inr 0) #
                  [TextGenerate (prompt (ustr ''Pyro'') (ustr ''Fire'') (ustr ''Epic'')),
                   ImageGenerate (img_prompt (ustr ''Pyro'') (ustr ''Fire''))]) photo (ustr ''Name: Pyro'')
             | None \<Rightarrow> reply_text tg_ok
                 (ReplyText (summoning (ustr ''Pyro'')) (Inr 0) #
                  [TextGenerate (prompt (ustr ''Pyro'') (ustr ''Fire'') (ustr ''Epic'')),
                   ImageGenerate (img_prompt (ustr ''Pyro'') (ustr ''Fire''))]) (ustr ''Name: Pyro'')) = Inr 3"
    by (simp add: tg_ok_def)
  have r2: "(case None of
               Some photo \<Rightarrow> reply_photo tg_ok
                 (ReplyText (summoning (ustr ''Pyro'')) (Inr 0) #
                  [TextGenerate (prompt (ustr ''Pyro'') (ustr ''Fire'') (ustr ''Epic'')),
                   ImageGenerate (img_prompt (ustr ''Pyro'') (ustr ''Fire'')),
                   LogError (ustr ''Image Error: list index out of range'')]) photo (ustr ''Name: Pyro'')
             | None \<Rightarrow> reply_text tg_ok
                 (ReplyText (summoning (ustr ''Pyro'')) (Inr 0) #
                  [TextGenerate (prompt (ustr ''Pyro'') (ustr ''Fire'') (ustr ''Epic'')),
                   ImageGenerate (img_prompt (ustr ''Pyro'') (ustr ''Fire'')),
                   LogError (ustr ''Image Error: list index out of range'')]) (ustr ''Name: Pyro'')) = Inr 4"
    by (simp add: tg_ok_def)
  from C5_reply_shape_by_image_presence [OF s g1 refl r1, of 5 "[]"]
    C5_reply_shape_by_image_presence [OF s g2 refl r2, of 5 "[]"]
  show ?thesis by (simp add: example_xs_def)
qed

text \<open>
  Claim C5 as the specification states it fails when the reply call raises: both results
  are there and there is an image, the chat refuses the photo, and the handler sends a
  second reply, the plain text \<open>Critical Error: ...\<close>, which is what the user gets.
\<close>

theorem C5_refused_photo_counterexample:
  "fst (get_gemini_response gem_ok (ustr ''Pyro'') (ustr ''Fire'') (ustr ''Epic'')) =
     (ustr ''Name: Pyro'', Some png_bytes) \<and>
   sends (snd (generate_command tg_photo_refused gem_ok 5 (Some example_xs))) =
     [ReplyText (summoning (ustr ''Pyro'')) (Inr 0),
      ReplyPhoto png_bytes (ustr ''Name: Pyro'') (Inl (Exception (ustr ''Image_process_failed''))),
      ReplyText (ustr ''Critical Error: Image_process_failed'') (Inr 4)]"
  by (simp add: run_photo_refused get_gemini_response_def generate_gem_ok sends_def)

text \<open>
  Claim C4, as the code has it. When the status message was sent and the image path
  fails with \<open>e\<close> at any of its three steps (the call raises, the response has no image,
  saving as PNG raises), the image result is \<open>None\<close>, the failure is logged as
  \<open>Image Error: e\<close>, and the handler calls \<open>reply_text\<close> with the stats text. When that
  call returns, the events of the request are the status message, the two generator
  calls, the log line, this one text-only reply and the deletion: no other message is
  sent. The stats text does not depend on the image model, so nothing of the failure
  reaches the user.
\<close>

theorem C4_image_failure_text_only_reply:
  assumes status: "reply_text tg [] (summoning name) = Inr m"
    and image: "IMAGE_MODEL gem (img_prompt name element) = Inl e \<or>
           (\<exists>resp. IMAGE_MODEL gem (img_prompt name element) = Inr resp \<and>
              (first_image resp = Inl e \<or>
               (\<exists>img. first_image resp = Inr img \<and> save_png img = Inl e)))"
    and t2: "t2 = [ReplyText (summoning name) (Inr m),
                   TextGenerate (prompt name element rarity),
                   ImageGenerate (img_prompt name element),
                   LogError (ustr ''Image Error: '' @ detail e)]"
    and reply: "reply_text tg t2 (stats_text gem name element rarity) = Inr m'"
  shows "snd (fst (get_gemini_response gem name element rarity)) = None \<and>
         snd (generate_command tg gem chat_id (Some (name # element # rarity # extra))) =
           t2 @ [ReplyText (stats_text gem name element rarity) (Inr m'),
                 DeleteMessage chat_id m
                   (delete_message tg (t2 @ [ReplyText (stats_text gem name element rarity) (Inr m')])
                      chat_id m)] \<and>
         stats_text (gem\<lparr>IMAGE_MODEL := f\<rparr>) name element rarity = stats_text gem name element rarity"
proof -
  have gen: "generate gem name element rarity =
       ((stats_text gem name element rarity, None),
        [TextGenerate (prompt name element rarity), ImageGenerate (img_prompt name element),
         LogError (ustr ''Image Error: '' @ detail e)])"
    by (simp add: generate_def img_try_fails [OF image] Let_def)
  have t2': "t2 = ReplyText (summoning name) (Inr m) #
        [TextGenerate (prompt name element rarity), ImageGenerate (img_prompt name element),
         LogError (ustr ''Image Error: '' @ detail e)]"
    by (simp add: t2)
  have r: "(case None of Some photo \<Rightarrow> reply_photo tg t2 photo (stats_text gem name element rarity)
            | None \<Rightarrow> reply_text tg t2 (stats_text gem name element rarity)) = Inr m'"
    by (simp add: reply)
  have "snd (fst (get_gemini_response gem name element rarity)) = None"
    by (simp add: get_gemini_response_def gen)
  moreover have "snd (generate_command tg gem chat_id (Some (name # element # rarity # extra))) =
           t2 @ [ReplyText (stats_text gem name element rarity) (Inr m'),
                 DeleteMessage chat_id m
                   (delete_message tg (t2 @ [ReplyText (stats_text gem name element rarity) (Inr m')])
                      chat_id m)]"
    unfolding reply_returns [OF status gen t2' r]
    by (simp add: delete_status_def Let_def)
  ultimately show ?thesis
    using stats_text_without_image_model by simp
qed

theorem C4_image_failure_text_only_reply_witness:
  "snd (fst (get_gemini_response gem_no_image (ustr ''Pyro'') (ustr ''Fire'') (ustr ''Epic''))) = None \<and>
   snd (generate_command tg_ok gem_no_image 5 (Some example_xs)) =
     [ReplyText (summoning (ustr ''Pyro'')) (Inr 0),
      TextGenerate (prompt (ustr ''Pyro'') (ustr ''Fire'') (ustr ''Epic'')),
      ImageGenerate (img_prompt (ustr ''Pyro'') (ustr ''Fire'')),
      LogError (ustr ''Image Error: list index out of range''),
      ReplyText (ustr ''Name: Pyro'') (Inr 4),
      DeleteMessage 5 0 (Inr True)]"
proof -
  have s: "reply_text tg_ok [] (summoning (ustr ''Pyro'')) = Inr 0"
    by (simp add: tg_ok_def)
  have i: "IMAGE_MODEL gem_no_image (img_prompt (ustr ''Pyro'') (ustr ''Fire'')) =
             Inl (Exception (ustr ''list index out of range'')) \<or>
           (\<exists>resp. IMAGE_MODEL gem_no_image (img_prompt (ustr ''Pyro'') (ustr ''Fire'')) = Inr resp \<and>
              (first_image resp = Inl (Exception (ustr ''list index out of range'')) \<or>
               (\<exists>img. first_image resp = Inr img \<and>
                  save_png img = Inl (Exception (ustr ''list index out of range'')))))"
    by (simp add: gem_no_image_def)
  have r: "reply_text tg_ok
             [ReplyText (summoning (ustr ''Pyro'')) (Inr 0),
              TextGenerate (prompt (ustr ''Pyro'') (ustr ''Fire'') (ustr ''Epic'')),
              ImageGenerate (img_prompt (ustr ''Pyro'') (ustr ''Fire'')),
              LogError (ustr ''Image Error: '' @ detail (Exception (ustr ''list index out of range'')))]
             (stats_text gem_no_image (ustr ''Pyro'') (ustr ''Fire'') (ustr ''Epic'')) = Inr 4"
    by (simp add: tg_ok_def)
  have st: "stats_text gem_no_image (ustr ''Pyro'') (ustr ''Fire'') (ustr ''Epic'') = ustr ''Name: Pyro''"
    using get_gemini_response_stats [of gem_no_image "ustr ''Pyro''" "ustr ''Fire''" "ustr ''Epic''"]
    by (simp add: get_gemini_response_def generate_gem_no_image)
  have d: "delete_message tg_ok h 5 0 = Inr True" for h
    by (simp add: tg_ok_def)
  from C4_image_failure_text_only_reply [OF s i refl r, of 5 "[]"]
  show ?thesis
    by (simp add: example_xs_def st d ustr_append [symmetric])
qed

text \<open>
  Claim C4 as the specification states it fails when the text-only reply raises: the
  image call raises, the stats text is empty after stripping, the chat refuses the
  empty text, and the handler sends a second text-only reply, \<open>Critical Error: ...\<close>,
  which is not the stats text and is the reply the user gets.
\<close>

theorem C4_refused_text_counterexample:
  "fst (get_gemini_response gem_blank_text (ustr ''Pyro'') (ustr ''Fire'') (ustr ''Epic'')) = ([], None) \<and>
   sends (snd (generate_command tg_no_empty_text gem_blank_text 5 (Some example_xs))) =
     [ReplyText (summoning (ustr ''Pyro'')) (Inr 0),
      ReplyText [] (Inl (Exception (ustr ''Message text is empty''))),
      ReplyText (ustr ''Critical Error: Message text is empty'') (Inr 5)]"
  by (simp add: run_empty_text_refused get_gemini_response_def generate_gem_blank_text sends_def)

text \<open>
  Claim C9, as the code has it. When the status message was sent, the text call raises
  with detail \<open>d\<close> (in the call or in the read of the response's text) and the image
  path succeeds, the image call is made all the same and the handler calls
  \<open>reply_photo\<close> with the image and the caption \<open>Error generating text: d\<close>. When that call
  returns, the events of the request are the status message, the two generator calls,
  this one photo reply and the deletion: no plain text reply is sent.
\<close>

theorem C9_text_failure_photo_with_error_caption:
  assumes status: "reply_text tg [] (summoning name) = Inr m"
    and raised: "TEXT_MODEL gem (prompt name element rarity) = Inl (Exception d) \<or>
           (\<exists>resp. TEXT_MODEL gem (prompt name element rarity) = Inr resp \<and>
              text_attr resp = Inl (Exception d))"
    and image: "IMAGE_MODEL gem (img_prompt name element) = Inr img_response"
      "first_image img_response = Inr img" "save_png img = Inr bio"
    and t2: "t2 = [ReplyText (summoning name) (Inr m),
                   TextGenerate (prompt name element rarity),
                   ImageGenerate (img_prompt name element)]"
    and reply: "reply_photo tg t2 bio (ustr ''Error generating text: '' @ d) = Inr m'"
  shows "snd (generate_command tg gem chat_id (Some (name # element # rarity # extra))) =
           t2 @ [ReplyPhoto bio (ustr ''Error generating text: '' @ d) (Inr m'),
                 DeleteMessage chat_id m
                   (delete_message tg (t2 @ [ReplyPhoto bio (ustr ''Error generating text: '' @ d) (Inr m')])
                      chat_id m)]"
proof -
  have st: "stats_text gem name element rarity = ustr ''Error generating text: '' @ d"
    using raised by (auto simp add: stats_text_def)
  have gen: "generate gem name element rarity =
       ((ustr ''Error generating text: '' @ d, Some bio),
        [TextGenerate (prompt name element rarity), ImageGenerate (img_prompt name element)])"
    by (simp add: generate_def img_try_def image st Let_def)
  have t2': "t2 = ReplyText (summoning name) (Inr m) #
        [TextGenerate (prompt name element rarity), ImageGenerate (img_prompt name element)]"
    by (simp add: t2)
  have r: "(case Some bio of Some photo \<Rightarrow> reply_photo tg t2 photo (ustr ''Error generating text: '' @ d)
            | None \<Rightarrow> reply_text tg t2 (ustr ''Error generating text: '' @ d)) = Inr m'"
    by (simp add: reply)
  show ?thesis
    unfolding reply_returns [OF status gen t2' r]
    by (simp add: delete_status_def Let_def)
qed

theorem C9_text_failure_photo_with_error_caption_witness:
  "snd (generate_command tg_ok gem_text_timeout 5 (Some example_xs)) =
     [ReplyText (summoning (ustr ''Pyro'')) (Inr 0),
      TextGenerate (prompt (ustr ''Pyro'') (ustr ''Fire'') (ustr ''Epic'')),
      ImageGenerate (img_prompt (ustr ''Pyro'') (ustr ''Fire'')),
      ReplyPhoto png_bytes (ustr ''Error generating text: timeout'') (Inr 3),
      DeleteMessage 5 0 (Inr True)]"
proof -
  have s: "reply_text tg_ok [] (summoning (ustr ''Pyro'')) = Inr 0"
    by (simp add: tg_ok_def)
  have t: "TEXT_MODEL gem_text_timeout (prompt (ustr ''Pyro'') (ustr ''Fire'') (ustr ''Epic'')) =
             Inl (Exception (ustr ''timeout'')) \<or>
           (\<exists>resp. TEXT_MODEL gem_text_timeout (prompt (ustr ''Pyro'') (ustr ''Fire'') (ustr ''Epic'')) = Inr resp \<and>
              text_attr resp = Inl (Exception (ustr ''timeout'')))"
    by (simp add: gem_text_timeout_def)
  have i: "IMAGE_MODEL gem_text_timeout (img_prompt (ustr ''Pyro'') (ustr ''Fire'')) =
             Inr (ImageResponse (Inr (PILImage (Inr png_bytes))))"
    "first_image (ImageResponse (Inr (PILImage (Inr png_bytes)))) = Inr (PILImage (Inr png_bytes))"
    "save_png (PILImage (Inr png_bytes)) = Inr png_bytes"
    by (simp_all add: gem_text_timeout_def)
  have r: "reply_photo tg_ok
             [ReplyText (summoning (ustr ''Pyro'')) (Inr 0),
              TextGenerate (prompt (ustr ''Pyro'') (ustr ''Fire'') (ustr ''Epic'')),
              ImageGenerate (img_prompt (ustr ''Pyro'') (ustr ''Fire''))]
             png_bytes (ustr ''Error generating text: '' @ ustr ''timeout'') = Inr 3"
    by (simp add: tg_ok_def)
  have d: "delete_message tg_ok h 5 0 = Inr True" for h
    by (simp add: tg_ok_def)
  from C9_text_failure_photo_with_error_caption [OF s t i refl r, of 5 "[]"]
  show ?thesis
    by (simp add: example_xs_def d ustr_append [symmetric])
qed

text \<open>
  Claim C9 as the specification states it fails when the photo reply raises: the text
  call raises \<open>timeout\<close>, the image is there, the chat refuses the photo, and the user
  gets a plain text error reply, \<open>Critical Error: ...\<close>, and no photo.
\<close>

theorem C9_refused_photo_counterexample:
  "fst (get_gemini_response gem_text_timeout (ustr ''Pyro'') (ustr ''Fire'') (ustr ''Epic'')) =
     (ustr ''Error generating text: timeout'', Some png_bytes) \<and>
   sends (snd (generate_command tg_photo_refused gem_text_timeout 5 (Some example_xs))) =
     [ReplyText (summoning (ustr ''Pyro'')) (Inr 0),
      ReplyPhoto png_bytes (ustr ''Error generating text: timeout'')
        (Inl (Exception (ustr ''Image_process_failed''))),
      ReplyText (ustr ''Critical Error: Image_process_failed'') (Inr 4)]"
  by (simp add: run_timeout_photo_refused get_gemini_response_def generate_gem_text_timeout sends_def)

section \<open>Start of the process\<close>

lemma env_names_differ: "ustr ''GEMINI_API_KEY'' \<noteq> ustr ''TELEGRAM_BOT_TOKEN''"
  by (simp add: ustr_def)

text \<open>
  Claim C8. When the AI-service key or the chat-platform token is absent from the
  process environment, the script configures the SDK and the logging, prints the
  diagnostic message and exits with status 1, which is not zero. It builds no
  application, registers no handler and never polls.
\<close>

theorem C8_missing_secret_exits:
  assumes "getenv (ustr ''GEMINI_API_KEY'') = None \<or> getenv (ustr ''TELEGRAM_BOT_TOKEN'') = None"
  shows "main getenv =
           (Exited 1,
            [Configure (getenv (ustr ''GEMINI_API_KEY'')), GenerativeModel (ustr ''gemini-1.5-flash''),
             GenerativeModel (ustr ''imagen-3.0-generate-001''), BasicConfig,
             Print (ustr ''Error: Environment variables GEMINI_API_KEY or TELEGRAM_BOT_TOKEN are missing.'')]) \<and>
         fst (main getenv) \<noteq> Exited 0 \<and>
         RunPolling \<notin> set (snd (main getenv)) \<and> AddHandler h \<notin> set (snd (main getenv))"
  using assms by (auto simp add: main_def falsy_def Let_def)

theorem C8_missing_secret_exits_witness:
  "fst (main env_no_key) = Exited 1 \<and> RunPolling \<notin> set (snd (main env_no_key)) \<and>
   fst (main env_full) = Serving"
proof -
  have h: "env_no_key (ustr ''GEMINI_API_KEY'') = None \<or> env_no_key (ustr ''TELEGRAM_BOT_TOKEN'') = None"
    using env_names_differ by (simp add: env_no_key_def)
  have "fst (main env_full) = Serving"
    using env_names_differ by (simp add: main_def env_full_def falsy_def Let_def ustr_def)
  then show ?thesis
    using C8_missing_secret_exits [OF h, of "ustr ''generate''"] by simp
qed

end
